theory Spec2Isabelle
  imports Complex_Main "HOL-Library.Multiset" "HOL-Library.Sublist"
begin

section \<open>Pattern matching engine of app.py: data model\<close>

text \<open>
  The engine is the class \<open>PatternMatcher\<close> of \<open>src/app.py\<close>. It works on a pandas
  DataFrame of daily observations, reads the host clock (\<open>datetime.now()\<close>) and the
  class attribute \<open>Config.TOP_N_SIMILAR\<close>, and calls two library routines whose text is
  not part of the repository: \<open>np.corrcoef\<close> and \<open>DataFrame.sort_values\<close>.

  A float64 value is modelled as an extended real or NaN. Rounding, overflow and the
  sign of zero are outside this model; no statement below depends on them.
\<close>

datatype float64 = Fin real | PInf | NInf | NaN

datatype exn = ValueError | IndexError | LibraryError

fun isnan :: "float64 \<Rightarrow> bool" where
  "isnan NaN = True"
| "isnan _ = False"

fun fneg :: "float64 \<Rightarrow> float64" where
  "fneg (Fin a) = Fin (- a)"
| "fneg PInf = NInf"
| "fneg NInf = PInf"
| "fneg NaN = NaN"

fun fadd :: "float64 \<Rightarrow> float64 \<Rightarrow> float64" where
  "fadd NaN _ = NaN"
| "fadd _ NaN = NaN"
| "fadd (Fin a) (Fin b) = Fin (a + b)"
| "fadd PInf NInf = NaN"
| "fadd NInf PInf = NaN"
| "fadd PInf _ = PInf"
| "fadd _ PInf = PInf"
| "fadd NInf _ = NInf"
| "fadd _ NInf = NInf"

definition fsub :: "float64 \<Rightarrow> float64 \<Rightarrow> float64" where
  "fsub x y = fadd x (fneg y)"

text \<open>The sign of a value (0 for zero and NaN), and the infinity of a given sign.\<close>

fun sign_of :: "float64 \<Rightarrow> real" where
  "sign_of (Fin a) = sgn a"
| "sign_of PInf = 1"
| "sign_of NInf = - 1"
| "sign_of NaN = 0"

definition inf_of_sign :: "real \<Rightarrow> float64" where
  "inf_of_sign s = (if s = 0 then NaN else if 0 < s then PInf else NInf)"

fun fmul :: "float64 \<Rightarrow> float64 \<Rightarrow> float64" where
  "fmul NaN _ = NaN"
| "fmul _ NaN = NaN"
| "fmul (Fin a) (Fin b) = Fin (a * b)"
| "fmul x y = inf_of_sign (sign_of x * sign_of y)"

fun fdiv :: "float64 \<Rightarrow> float64 \<Rightarrow> float64" where
  "fdiv NaN _ = NaN"
| "fdiv _ NaN = NaN"
| "fdiv (Fin a) (Fin b) = (if b = 0 then inf_of_sign (sgn a) else Fin (a / b))"
| "fdiv (Fin a) _ = Fin 0"
| "fdiv x (Fin b) = inf_of_sign (sign_of x * (if b < 0 then - 1 else 1))"
| "fdiv _ _ = NaN"

text \<open>\<open>a >= b\<close> on float64: false as soon as one side is NaN.\<close>

fun fge :: "float64 \<Rightarrow> float64 \<Rightarrow> bool" where
  "fge NaN _ = False"
| "fge _ NaN = False"
| "fge (Fin a) (Fin b) = (b \<le> a)"
| "fge PInf _ = True"
| "fge _ NInf = True"
| "fge _ _ = False"

text \<open>
  One row of the DataFrame: the date of the DatetimeIndex and the three columns the
  engine reads or carries.
\<close>

record bar =
  idx_year :: int
  idx_month :: int
  idx_day :: int
  adjusted_close :: float64
  returns :: float64
  cum_returns :: float64

type_synonym dataframe = "bar list"

text \<open>
  What the engine reads besides its arguments: the host clock and the attributes of the
  class \<open>Config\<close> (its chart styling attributes are left out). One call sees one clock
  value.
\<close>

record env =
  now_year :: int
  now_month :: int
  now_day :: int
  MIN_CORRELATION :: float64
  TOP_N_SIMILAR :: int
  START_DATE :: string
  CURRENT_YEAR :: int

record PatternMatcher =
  data :: dataframe
  current_year :: int

text \<open>The rows of the two result frames; both have the columns \<open>year\<close> and \<open>correlation\<close>.\<close>

record corr_row =
  year :: int
  correlation :: float64

record year_row = corr_row +
  year_return :: float64
  ytd_return_at_similar_point :: float64

record quarter_row = corr_row +
  quarter :: int
  year_quarter :: string
  quarter_return :: float64

section \<open>Library routines\<close>

text \<open>Positional access \<open>s.iloc[i]\<close>: a negative index counts from the end.\<close>

definition iloc :: "'a list \<Rightarrow> int \<Rightarrow> exn + 'a" where
  "iloc xs i =
     (if 0 \<le> i \<and> i < int (length xs) then Inr (xs ! nat i)
      else if i < 0 \<and> - i \<le> int (length xs) then Inr (xs ! nat (int (length xs) + i))
      else Inl IndexError)"

text \<open>\<open>df.head(n)\<close> is \<open>df.iloc[:n]\<close>: for a negative \<open>n\<close> all rows but the last \<open>-n\<close>.\<close>

definition head :: "int \<Rightarrow> 'a list \<Rightarrow> 'a list" where
  "head n xs = (if 0 \<le> n then take (nat n) xs else take (length xs - nat (- n)) xs)"

text \<open>
  \<open>Series.cumprod()\<close> with the default \<open>skipna=True\<close>: a NaN entry stays NaN in the
  output and is left out of the running product.
\<close>

fun cumprod_from :: "float64 \<Rightarrow> float64 list \<Rightarrow> float64 list" where
  "cumprod_from acc [] = []"
| "cumprod_from acc (x # xs) =
     (if isnan x then NaN # cumprod_from acc xs
      else fmul acc x # cumprod_from (fmul acc x) xs)"

definition cumprod :: "float64 list \<Rightarrow> float64 list" where
  "cumprod xs = cumprod_from (Fin 1) xs"

text \<open>Boolean indexing \<open>a[mask]\<close>.\<close>

fun select :: "bool list \<Rightarrow> 'a list \<Rightarrow> 'a list" where
  "select (b # bs) (x # xs) = (if b then x # select bs xs else select bs xs)"
| "select _ _ = []"

text \<open>
  What the engine relies on from \<open>sort_values('correlation', ascending=False)\<close> on rows
  whose key is not NaN: the same rows, in non-increasing order of the key. The call uses
  the default sort kind, for which pandas documents no order among equal keys.
\<close>

definition sorts_descending :: "('r \<Rightarrow> float64) \<Rightarrow> ('r list \<Rightarrow> 'r list) \<Rightarrow> bool" where
  "sorts_descending key srt \<longleftrightarrow>
     (\<forall>xs. (\<forall>x \<in> set xs. \<not> isnan (key x)) \<longrightarrow>
        mset (srt xs) = mset xs \<and> sorted_wrt (\<lambda>a b. fge (key a) (key b)) (srt xs))"


section \<open>PatternMatcher\<close>

definition PatternMatcher_init :: "env \<Rightarrow> dataframe \<Rightarrow> exn + PatternMatcher" where
  "PatternMatcher_init e df =
     (if df = [] then Inl ValueError
      else Inr \<lparr>data = df, current_year = now_year e\<rparr>)"

text \<open>\<open>df[df.index.year == y]\<close> and the year-to-date restriction of lines 209-210.\<close>

definition year_rows :: "dataframe \<Rightarrow> int \<Rightarrow> dataframe" where
  "year_rows df y = filter (\<lambda>r. idx_year r = y) df"

definition up_to :: "int \<Rightarrow> int \<Rightarrow> dataframe \<Rightarrow> dataframe" where
  "up_to m d df = filter (\<lambda>r. idx_month r < m \<or> (idx_month r = m \<and> idx_day r \<le> d)) df"

text \<open>\<open>((1 + s).cumprod() - 1).values\<close>\<close>

definition cum_path :: "float64 list \<Rightarrow> float64 list" where
  "cum_path s = map (\<lambda>v. fsub v (Fin 1)) (cumprod (map (\<lambda>r. fadd (Fin 1) r) s))"

text \<open>
  Lines 224-228 and 298-302: the mask of positions where both paths are defined, the
  count check against \<open>least\<close>, and \<open>np.corrcoef(...)[0, 1]\<close>, which is the
  parameter \<open>cc\<close> and may raise.
\<close>

definition masked_corrcoef ::
  "(float64 list \<Rightarrow> float64 list \<Rightarrow> exn + float64) \<Rightarrow> nat \<Rightarrow> float64 list \<Rightarrow> float64 list
     \<Rightarrow> exn + float64" where
  "masked_corrcoef cc least cum_returns1 cum_returns2 =
     (let mask = map2 (\<lambda>a b. \<not> (isnan a \<or> isnan b)) cum_returns1 cum_returns2
      in if length (filter id mask) < least then Inr NaN
         else cc (select mask cum_returns1) (select mask cum_returns2))"

definition ytd_try ::
  "env \<Rightarrow> (float64 list \<Rightarrow> float64 list \<Rightarrow> exn + float64) \<Rightarrow> PatternMatcher \<Rightarrow> int \<Rightarrow> int
     \<Rightarrow> exn + float64" where
  "ytd_try e cc self year1 year2 =
     (let end_month = now_month e; end_day = now_day e;
          data1 = up_to end_month end_day (year_rows (data self) year1);
          data2 = up_to end_month end_day (year_rows (data self) year2);
          min_len = min (length data1) (length data2)
      in if min_len < 20 then Inr NaN
         else masked_corrcoef cc 20
                (cum_path (take min_len (map returns data1)))
                (cum_path (take min_len (map returns data2))))"

text \<open>The bare \<open>except\<close> turns every exception of the \<open>try\<close> block into NaN.\<close>

definition calculate_ytd_correlation ::
  "env \<Rightarrow> (float64 list \<Rightarrow> float64 list \<Rightarrow> exn + float64) \<Rightarrow> PatternMatcher \<Rightarrow> int \<Rightarrow> int
     \<Rightarrow> float64" where
  "calculate_ytd_correlation e cc self year1 year2 =
     (case ytd_try e cc self year1 year2 of Inl _ \<Rightarrow> NaN | Inr c \<Rightarrow> c)"

text \<open>\<open>((col.iloc[-1] / col.iloc[0]) - 1) * 100\<close>, the expression of lines 246, 272 and 341.\<close>

definition period_return :: "float64 list \<Rightarrow> exn + float64" where
  "period_return col =
     (case iloc col (- 1) of Inl x \<Rightarrow> Inl x
      | Inr l \<Rightarrow> (case iloc col 0 of Inl x \<Rightarrow> Inl x
          | Inr f \<Rightarrow> Inr (fmul (fsub (fdiv l f) (Fin 1)) (Fin 100))))"

definition get_ytd_return :: "PatternMatcher \<Rightarrow> int \<Rightarrow> int \<Rightarrow> int \<Rightarrow> float64" where
  "get_ytd_return self y m d =
     (let year_data = year_rows (data self) y;
          subset = up_to m d year_data
      in if 1 < length subset
         then (case period_return (map adjusted_close subset) of Inl _ \<Rightarrow> NaN | Inr v \<Rightarrow> v)
         else NaN)"

text \<open>Running a loop body over a list; an exception of the body ends the loop.\<close>

fun collect :: "('a \<Rightarrow> exn + 'b list) \<Rightarrow> 'a list \<Rightarrow> exn + 'b list" where
  "collect f [] = Inr []"
| "collect f (x # xs) =
     (case f x of Inl ex \<Rightarrow> Inl ex
      | Inr r \<Rightarrow> (case collect f xs of Inl ex \<Rightarrow> Inl ex | Inr rs \<Rightarrow> Inr (r @ rs)))"

definition years_of :: "dataframe \<Rightarrow> int list" where
  "years_of df = sort (remdups (map idx_year df))"

text \<open>The body of the loop of \<open>find_similar_years\<close>: no row, or the one appended row.\<close>

definition year_step ::
  "env \<Rightarrow> (float64 list \<Rightarrow> float64 list \<Rightarrow> exn + float64) \<Rightarrow> PatternMatcher \<Rightarrow> int
     \<Rightarrow> float64 \<Rightarrow> int \<Rightarrow> exn + year_row list" where
  "year_step e cc self reference_year min_correlation y =
     (if y = reference_year then Inr []
      else let corr = calculate_ytd_correlation e cc self reference_year y
      in if \<not> isnan corr \<and> fge corr min_correlation
         then (let year_data = year_rows (data self) y
               in if 0 < length year_data
                  then (case period_return (map adjusted_close year_data) of Inl x \<Rightarrow> Inl x
                        | Inr yret \<Rightarrow>
                            Inr [\<lparr>year = y, correlation = corr, year_return = yret,
                                  ytd_return_at_similar_point =
                                    get_ytd_return self y (now_month e) (now_day e)\<rparr>])
                  else Inr [\<lparr>year = y, correlation = corr, year_return = NaN,
                             ytd_return_at_similar_point = NaN\<rparr>])
         else Inr [])"

definition find_similar_years ::
  "env \<Rightarrow> (float64 list \<Rightarrow> float64 list \<Rightarrow> exn + float64) \<Rightarrow> (year_row list \<Rightarrow> year_row list)
     \<Rightarrow> PatternMatcher \<Rightarrow> int \<Rightarrow> float64 \<Rightarrow> exn + year_row list" where
  "find_similar_years e cc srt self reference_year min_correlation =
     (case collect (year_step e cc self reference_year min_correlation) (years_of (data self)) of
        Inl x \<Rightarrow> Inl x
      | Inr correlations \<Rightarrow>
          if correlations \<noteq> [] then Inr (head (TOP_N_SIMILAR e) (srt correlations))
          else Inr [])"

subsection \<open>Quarters\<close>

text \<open>\<open>quarter_months.get(quarter, [])\<close>\<close>

definition quarter_months :: "int \<Rightarrow> int list" where
  "quarter_months q =
     (if q = 1 then [1, 2, 3] else if q = 2 then [4, 5, 6]
      else if q = 3 then [7, 8, 9] else if q = 4 then [10, 11, 12] else [])"

definition get_quarter_data :: "PatternMatcher \<Rightarrow> int \<Rightarrow> int \<Rightarrow> dataframe" where
  "get_quarter_data self y q =
     filter (\<lambda>r. idx_month r \<in> set (quarter_months q)) (year_rows (data self) y)"

definition quarterly_try ::
  "(float64 list \<Rightarrow> float64 list \<Rightarrow> exn + float64) \<Rightarrow> PatternMatcher \<Rightarrow> int \<Rightarrow> int \<Rightarrow> int \<Rightarrow> int
     \<Rightarrow> exn + float64" where
  "quarterly_try cc self year1 q1 year2 q2 =
     (let data1 = get_quarter_data self year1 q1;
          data2 = get_quarter_data self year2 q2
      in if length data1 < 15 \<or> length data2 < 15 then Inr NaN
         else let min_len = min (length data1) (length data2)
              in masked_corrcoef cc 15
                   (cum_path (take min_len (map returns data1)))
                   (cum_path (take min_len (map returns data2))))"

definition calculate_quarterly_correlation ::
  "(float64 list \<Rightarrow> float64 list \<Rightarrow> exn + float64) \<Rightarrow> PatternMatcher \<Rightarrow> int \<Rightarrow> int \<Rightarrow> int \<Rightarrow> int
     \<Rightarrow> float64" where
  "calculate_quarterly_correlation cc self year1 q1 year2 q2 =
     (case quarterly_try cc self year1 q1 year2 q2 of Inl _ \<Rightarrow> NaN | Inr c \<Rightarrow> c)"

definition get_quarter_return :: "PatternMatcher \<Rightarrow> int \<Rightarrow> int \<Rightarrow> float64" where
  "get_quarter_return self y q =
     (let d = get_quarter_data self y q
      in if 1 < length d
         then (case period_return (map adjusted_close d) of Inl _ \<Rightarrow> NaN | Inr v \<Rightarrow> v)
         else NaN)"

text \<open>The decimal text of an integer, for the f-string \<open>f"{year}-Q{quarter}"\<close>.\<close>

definition digit :: "nat \<Rightarrow> char" where
  "digit n = ''0123456789'' ! n"

fun str_nat :: "nat \<Rightarrow> string" where
  "str_nat n = (if n < 10 then [digit n] else str_nat (n div 10) @ [digit (n mod 10)])"

definition str_int :: "int \<Rightarrow> string" where
  "str_int i = (if i < 0 then CHR ''-'' # str_nat (nat (- i)) else str_nat (nat i))"

definition quarter_step ::
  "(float64 list \<Rightarrow> float64 list \<Rightarrow> exn + float64) \<Rightarrow> PatternMatcher \<Rightarrow> int \<Rightarrow> int \<Rightarrow> float64
     \<Rightarrow> int \<Rightarrow> int \<Rightarrow> exn + quarter_row list" where
  "quarter_step cc self reference_year reference_quarter min_correlation y q =
     (if y = reference_year \<and> q = reference_quarter then Inr []
      else let corr = calculate_quarterly_correlation cc self reference_year reference_quarter y q
      in if \<not> isnan corr \<and> fge corr min_correlation
         then Inr [\<lparr>year = y, correlation = corr, quarter = q,
                    year_quarter = str_int y @ ''-Q'' @ str_int q,
                    quarter_return = get_quarter_return self y q\<rparr>]
         else Inr [])"

definition find_similar_quarters ::
  "env \<Rightarrow> (float64 list \<Rightarrow> float64 list \<Rightarrow> exn + float64)
     \<Rightarrow> (quarter_row list \<Rightarrow> quarter_row list)
     \<Rightarrow> PatternMatcher \<Rightarrow> int \<Rightarrow> int \<Rightarrow> float64 \<Rightarrow> exn + quarter_row list" where
  "find_similar_quarters e cc srt self reference_year reference_quarter min_correlation =
     (case collect
             (\<lambda>y. collect
                (quarter_step cc self reference_year reference_quarter min_correlation y)
                [1, 2, 3, 4])
             (years_of (data self)) of
        Inl x \<Rightarrow> Inl x
      | Inr correlations \<Rightarrow>
          if correlations \<noteq> [] then Inr (head (TOP_N_SIMILAR e) (srt correlations))
          else Inr [])"

text \<open>
  Lines 502-510 of \<open>main\<close>: the matcher is built from the series, then scanned.
\<close>

definition analyse_years ::
  "env \<Rightarrow> (float64 list \<Rightarrow> float64 list \<Rightarrow> exn + float64) \<Rightarrow> (year_row list \<Rightarrow> year_row list)
     \<Rightarrow> dataframe \<Rightarrow> int \<Rightarrow> float64 \<Rightarrow> exn + year_row list" where
  "analyse_years e cc srt df reference_year min_correlation =
     (case PatternMatcher_init e df of Inl x \<Rightarrow> Inl x
      | Inr matcher \<Rightarrow> find_similar_years e cc srt matcher reference_year min_correlation)"

definition analyse_quarters ::
  "env \<Rightarrow> (float64 list \<Rightarrow> float64 list \<Rightarrow> exn + float64)
     \<Rightarrow> (quarter_row list \<Rightarrow> quarter_row list)
     \<Rightarrow> dataframe \<Rightarrow> int \<Rightarrow> int \<Rightarrow> float64 \<Rightarrow> exn + quarter_row list" where
  "analyse_quarters e cc srt df reference_year reference_quarter min_correlation =
     (case PatternMatcher_init e df of Inl x \<Rightarrow> Inl x
      | Inr matcher \<Rightarrow>
          find_similar_quarters e cc srt matcher reference_year reference_quarter
            min_correlation)"

section \<open>Instances of the library routines, for evaluation on concrete series\<close>

text \<open>
  \<open>np.corrcoef(a, b)[0, 1]\<close> for two one-dimensional arrays, in exact arithmetic: the
  covariance over the two standard deviations, clipped to \<open>[-1, 1]\<close>; NaN when an
  entry is not finite or a variance is zero.
\<close>

fun is_fin :: "float64 \<Rightarrow> bool" where
  "is_fin (Fin _) = True"
| "is_fin _ = False"

fun the_fin :: "float64 \<Rightarrow> real" where
  "the_fin (Fin a) = a"
| "the_fin _ = 0"

definition mean :: "real list \<Rightarrow> real" where
  "mean xs = sum_list xs / real (length xs)"

definition cov :: "real list \<Rightarrow> real list \<Rightarrow> real" where
  "cov xs ys =
     sum_list (map2 (\<lambda>x y. (x - mean xs) * (y - mean ys)) xs ys) / (real (length xs) - 1)"

definition corrcoef_exact :: "float64 list \<Rightarrow> float64 list \<Rightarrow> exn + float64" where
  "corrcoef_exact a b =
     (if length a \<noteq> length b then Inl ValueError
      else if \<not> (list_all is_fin a \<and> list_all is_fin b) then Inr NaN
      else let xs = map the_fin a; ys = map the_fin b
           in if length xs < 2 \<or> cov xs xs = 0 \<or> cov ys ys = 0 then Inr NaN
              else Inr (Fin (max (- 1) (min 1 (cov xs ys / sqrt (cov xs xs) / sqrt (cov ys ys))))))"

text \<open>A stable descending insertion sort, and one that puts equal keys in reverse order.\<close>

fun insert_desc :: "('r \<Rightarrow> float64) \<Rightarrow> 'r \<Rightarrow> 'r list \<Rightarrow> 'r list" where
  "insert_desc key x [] = [x]"
| "insert_desc key x (y # ys) =
     (if fge (key x) (key y) then x # y # ys else y # insert_desc key x ys)"

definition stable_sort_desc :: "('r \<Rightarrow> float64) \<Rightarrow> 'r list \<Rightarrow> 'r list" where
  "stable_sort_desc key xs = foldr (insert_desc key) xs []"



text \<open>
  A sample series: twenty January observations per year, the price at 100 and doubling on
  the last day, after a close of 200 the day before the year starts.
\<close>

definition sample_bar :: "int \<Rightarrow> int \<Rightarrow> bar" where
  "sample_bar y d =
     \<lparr>idx_year = y, idx_month = 1, idx_day = d,
      adjusted_close = Fin (if d = 20 then 200 else 100),
      returns = Fin (if d = 1 then - (1 / 2) else if d = 20 then 1 else 0),
      cum_returns = Fin (if d = 20 then 0 else - (1 / 2))\<rparr>"

definition sample_year :: "int \<Rightarrow> dataframe" where
  "sample_year y = map (sample_bar y) [1..20]"

definition sample_frame :: dataframe where
  "sample_frame = sample_year 2010 @ sample_year 2011 @ sample_year 2012"

definition sample_matcher :: PatternMatcher where
  "sample_matcher = \<lparr>data = sample_frame, current_year = 2012\<rparr>"

definition env_at :: "int \<Rightarrow> int \<Rightarrow> env" where
  "env_at m d =
     \<lparr>now_year = 2012, now_month = m, now_day = d, MIN_CORRELATION = Fin (7 / 10),
      TOP_N_SIMILAR = 5, START_DATE = ''2006-01-01'', CURRENT_YEAR = 2012\<rparr>"









section \<open>Auxiliary facts\<close>

declare str_nat.simps [simp del]

lemma fge_not_nan: "fge a b \<Longrightarrow> \<not> isnan a \<and> \<not> isnan b"
  by (cases a; cases b) auto

lemma fge_refl: "\<not> isnan a \<Longrightarrow> fge a a"
  by (cases a) auto

lemma fge_trans: "fge a b \<Longrightarrow> fge b c \<Longrightarrow> fge a c"
  by (cases a; cases b; cases c) auto

lemma fge_total: "\<not> isnan a \<Longrightarrow> \<not> isnan b \<Longrightarrow> fge a b \<or> fge b a"
  by (cases a; cases b) auto

lemma fge_antisym: "fge a b \<Longrightarrow> fge b a \<Longrightarrow> a = b"
  by (cases a; cases b) auto

lemma fmul_one: "fmul (Fin 1) x = x"
  by (cases x) (auto simp: inf_of_sign_def)

lemma iloc_last: "xs \<noteq> [] \<Longrightarrow> iloc xs (- 1) = Inr (last xs)"
  by (cases xs rule: rev_cases) (auto simp: iloc_def nth_append)

lemma iloc_first: "xs \<noteq> [] \<Longrightarrow> iloc xs 0 = Inr (hd xs)"
  by (cases xs) (auto simp: iloc_def)

lemma period_return_Inr:
  "col \<noteq> [] \<Longrightarrow> period_return col = Inr (fmul (fsub (fdiv (last col) (hd col)) (Fin 1)) (Fin 100))"
  by (simp add: period_return_def iloc_last iloc_first)

lemma collect_Inr:
  "(\<And>x. x \<in> set xs \<Longrightarrow> \<exists>r. f x = Inr r) \<Longrightarrow> collect f xs = Inr (concat (map (\<lambda>x. projr (f x)) xs))"
proof (induction xs)
  case Nil
  then show ?case by simp
next
  case (Cons x xs)
  from Cons.prems obtain r where r: "f x = Inr r" by auto
  have "collect f xs = Inr (concat (map (\<lambda>x. projr (f x)) xs))"
    using Cons by simp
  with r show ?case by simp
qed

lemma year_step_total: "\<exists>rs. year_step e cc self ref minc y = Inr rs"
  by (auto simp: year_step_def Let_def period_return_Inr)

lemma year_step_row:
  assumes "year_step e cc self ref minc y = Inr rs" and "r \<in> set rs"
  shows "year r = y \<and> y \<noteq> ref \<and> correlation r = calculate_ytd_correlation e cc self ref y
    \<and> \<not> isnan (correlation r) \<and> fge (correlation r) minc"
  using assms by (auto simp: year_step_def Let_def period_return_Inr split: if_splits)

lemma days: "[1..20] = [1, 2, 3, 4, 5, 6, 7, 8, 9, 10, 11, 12, 13, 14, 15, 16, 17, 18, 19, 20 :: int]"
  by code_simp

lemma years_of_sample: "years_of sample_frame = [2010, 2011, 2012]"
  by (simp add: years_of_def sample_frame_def sample_year_def sample_bar_def days)

lemma year_rows_sample:
  "year_rows sample_frame y = (if y = 2010 \<or> y = 2011 \<or> y = 2012 then sample_year y else [])"
  by (auto simp: year_rows_def sample_frame_def sample_year_def sample_bar_def filter_empty_conv o_def)

lemma up_to_sample_20: "up_to 1 20 (sample_year y) = sample_year y"
  by (simp add: up_to_def sample_year_def sample_bar_def days)

lemma up_to_sample_19: "length (up_to 1 19 (sample_year y)) = 19"
  by (simp add: up_to_def sample_year_def sample_bar_def days)

lemma path_sample: "cum_path (map returns (sample_year y)) = replicate 19 (Fin (- (1/2))) @ [Fin 0]"
  by (simp add: cum_path_def cumprod_def sample_year_def sample_bar_def fsub_def numeral_eq_Suc days)

lemma cov_self_nonneg: "2 \<le> length xs \<Longrightarrow> 0 \<le> cov xs xs"
proof -
  assume n: "2 \<le> length xs"
  have "map2 (\<lambda>x y. (x - mean xs) * (y - mean xs)) xs xs = map (\<lambda>x. (x - mean xs) * (x - mean xs)) xs"
    by (simp add: zip_same_conv_map)
  moreover have "0 \<le> sum_list (map (\<lambda>x. (x - mean xs) * (x - mean xs)) xs)"
    by (rule sum_list_nonneg) auto
  ultimately show ?thesis using n by (simp add: cov_def)
qed

lemma corrcoef_exact_self:
  assumes "list_all is_fin a" and "2 \<le> length a" and "cov (map the_fin a) (map the_fin a) \<noteq> 0"
  shows "corrcoef_exact a a = Inr (Fin 1)"
proof -
  let ?c = "cov (map the_fin a) (map the_fin a)"
  have "0 \<le> ?c" using assms(2) by (intro cov_self_nonneg) simp
  with assms(3) have pos: "0 < ?c" by simp
  have "?c / sqrt ?c / sqrt ?c = 1"
    using pos by simp
  with assms pos show ?thesis
    by (simp add: corrcoef_exact_def Let_def)
qed

lemma sample_path_cov:
  "cov (replicate 19 (- (1/2)) @ [0]) (replicate 19 (- (1/2)) @ [0]) = 1 / 80"
  by (simp add: cov_def mean_def numeral_eq_Suc)

lemma sample_corr:
  "y1 \<in> {2010, 2011, 2012} \<Longrightarrow> y2 \<in> {2010, 2011, 2012} \<Longrightarrow>
   calculate_ytd_correlation (env_at 1 20) corrcoef_exact sample_matcher y1 y2 = Fin 1"
proof -
  assume y: "y1 \<in> {2010, 2011, 2012}" "y2 \<in> {2010, 2011, 2012}"
  let ?p = "replicate 19 (Fin (- (1/2))) @ [Fin 0]"
  have len: "length (sample_year y) = 20" for y by (simp add: sample_year_def days)
  have m: "masked_corrcoef corrcoef_exact 20 ?p ?p = corrcoef_exact ?p ?p"
    by (simp add: masked_corrcoef_def Let_def numeral_eq_Suc)
  have c: "corrcoef_exact ?p ?p = Inr (Fin 1)"
    by (rule corrcoef_exact_self) (simp_all add: sample_path_cov list_all_iff)
  show ?thesis using y
    by (auto simp: calculate_ytd_correlation_def ytd_try_def Let_def env_at_def sample_matcher_def
        year_rows_sample up_to_sample_20 len path_sample m c)
qed

lemma collect_set:
  "collect f xs = Inr rs \<Longrightarrow> r \<in> set rs \<Longrightarrow> \<exists>x \<in> set xs. \<exists>rx. f x = Inr rx \<and> r \<in> set rx"
proof (induction xs arbitrary: rs)
  case Nil
  then show ?case by simp
next
  case (Cons x xs)
  then show ?case by (fastforce split: sum.splits)
qed

lemma set_head: "set (head n xs) \<subseteq> set xs"
  by (auto simp: head_def dest: in_set_takeD)

lemma sorted_wrt_head: "sorted_wrt P xs \<Longrightarrow> sorted_wrt P (head n xs)"
  by (simp add: head_def)

lemma length_head: "0 \<le> n \<Longrightarrow> length (head n xs) = min (nat n) (length xs)"
  by (simp add: head_def)

lemma sorts_descending_set:
  "sorts_descending key srt \<Longrightarrow> \<forall>x \<in> set xs. \<not> isnan (key x) \<Longrightarrow> set (srt xs) = set xs"
  unfolding sorts_descending_def by (metis set_mset_mset)

lemma sorts_descending_sorted:
  "sorts_descending key srt \<Longrightarrow> \<forall>x \<in> set xs. \<not> isnan (key x) \<Longrightarrow>
     sorted_wrt (\<lambda>a b. fge (key a) (key b)) (srt xs)"
  unfolding sorts_descending_def by blast

lemma years_kept:
  obtains kept where
    "collect (year_step e cc self ref minc) (years_of (data self)) = Inr kept"
    "\<forall>r \<in> set kept. year r \<in> set (years_of (data self)) \<and> year r \<noteq> ref
        \<and> correlation r = calculate_ytd_correlation e cc self ref (year r)
        \<and> \<not> isnan (correlation r) \<and> fge (correlation r) minc"
proof -
  let ?f = "year_step e cc self ref minc" and ?ys = "years_of (data self)"
  have c: "collect ?f ?ys = Inr (concat (map (\<lambda>x. projr (?f x)) ?ys))"
    by (rule collect_Inr) (rule year_step_total)
  show ?thesis
  proof (rule that [OF c], rule ballI)
    fix r assume "r \<in> set (concat (map (\<lambda>x. projr (?f x)) ?ys))"
    with collect_set [OF c] obtain y rs where y: "y \<in> set ?ys" "?f y = Inr rs" "r \<in> set rs"
      by blast
    with year_step_row [OF y(2,3)]
    show "year r \<in> set ?ys \<and> year r \<noteq> ref
        \<and> correlation r = calculate_ytd_correlation e cc self ref (year r)
        \<and> \<not> isnan (correlation r) \<and> fge (correlation r) minc" by metis
  qed
qed

lemma find_similar_years_rows:
  assumes "sorts_descending correlation srt"
  obtains rows where
    "find_similar_years e cc srt self ref minc = Inr rows"
    "\<forall>r \<in> set rows. year r \<in> set (years_of (data self)) \<and> year r \<noteq> ref
        \<and> correlation r = calculate_ytd_correlation e cc self ref (year r)
        \<and> \<not> isnan (correlation r) \<and> fge (correlation r) minc"
    "sorted_wrt (\<lambda>a b. fge (correlation a) (correlation b)) rows"
proof -
  obtain kept where k: "collect (year_step e cc self ref minc) (years_of (data self)) = Inr kept"
    and p: "\<forall>r \<in> set kept. year r \<in> set (years_of (data self)) \<and> year r \<noteq> ref
        \<and> correlation r = calculate_ytd_correlation e cc self ref (year r)
        \<and> \<not> isnan (correlation r) \<and> fge (correlation r) minc"
    by (rule years_kept)
  let ?rows = "if kept \<noteq> [] then head (TOP_N_SIMILAR e) (srt kept) else []"
  have nn: "\<forall>r \<in> set kept. \<not> isnan (correlation r)" using p by blast
  have s: "set (srt kept) = set kept" by (rule sorts_descending_set [OF assms nn])
  have o: "sorted_wrt (\<lambda>a b. fge (correlation a) (correlation b)) (srt kept)"
    by (rule sorts_descending_sorted [OF assms nn])
  have 1: "find_similar_years e cc srt self ref minc = Inr ?rows"
    by (simp add: find_similar_years_def k)
  have 2: "set ?rows \<subseteq> set kept" using set_head [of "TOP_N_SIMILAR e" "srt kept"] s by auto
  have 3: "sorted_wrt (\<lambda>a b. fge (correlation a) (correlation b)) ?rows"
    using o by (simp add: sorted_wrt_head)
  show ?thesis
    by (rule that [OF 1 _ 3]) (use 2 p in blast)
qed

lemma mset_insert_desc: "mset (insert_desc key x ys) = add_mset x (mset ys)"
  by (induction ys) auto

lemma set_insert_desc: "set (insert_desc key x ys) = insert x (set ys)"
  by (induction ys) auto

lemma sorted_insert_desc:
  "\<not> isnan (key x) \<Longrightarrow> \<forall>y \<in> set ys. \<not> isnan (key y) \<Longrightarrow>
   sorted_wrt (\<lambda>a b. fge (key a) (key b)) ys \<Longrightarrow>
   sorted_wrt (\<lambda>a b. fge (key a) (key b)) (insert_desc key x ys)"
proof (induction ys)
  case Nil
  then show ?case by simp
next
  case (Cons y ys)
  show ?case
  proof (cases "fge (key x) (key y)")
    case True
    with Cons.prems show ?thesis by (auto intro: fge_trans)
  next
    case False
    with Cons.prems have "fge (key y) (key x)" using fge_total by auto
    with False Cons show ?thesis by (auto simp: set_insert_desc)
  qed
qed

lemma filter_insert_desc:
  "\<not> isnan (key x) \<Longrightarrow>
   filter (\<lambda>r. key r = k) (insert_desc key x ys) =
     (if key x = k then x # filter (\<lambda>r. key r = k) ys else filter (\<lambda>r. key r = k) ys)"
  by (induction ys) (auto dest: fge_refl)

lemma stable_sort_desc_props:
  "\<forall>x \<in> set xs. \<not> isnan (key x) \<Longrightarrow>
   mset (stable_sort_desc key xs) = mset xs
   \<and> sorted_wrt (\<lambda>a b. fge (key a) (key b)) (stable_sort_desc key xs)
   \<and> filter (\<lambda>r. key r = k) (stable_sort_desc key xs) = filter (\<lambda>r. key r = k) xs"
proof (induction xs)
  case Nil
  then show ?case by (simp add: stable_sort_desc_def)
next
  case (Cons x xs)
  then have ih: "mset (stable_sort_desc key xs) = mset xs"
    "sorted_wrt (\<lambda>a b. fge (key a) (key b)) (stable_sort_desc key xs)"
    "filter (\<lambda>r. key r = k) (stable_sort_desc key xs) = filter (\<lambda>r. key r = k) xs"
    by simp_all
  from ih(1) have "set (stable_sort_desc key xs) = set xs" by (metis set_mset_mset)
  with Cons.prems have nn: "\<forall>y \<in> set (stable_sort_desc key xs). \<not> isnan (key y)" by simp
  have x: "\<not> isnan (key x)" using Cons.prems by simp
  have unf: "stable_sort_desc key (x # xs) = insert_desc key x (stable_sort_desc key xs)"
    by (simp add: stable_sort_desc_def)
  show ?case
    unfolding unf using ih x nn
    by (simp add: mset_insert_desc sorted_insert_desc filter_insert_desc)
qed

lemma stable_sort_desc_sorts: "sorts_descending key (stable_sort_desc key)"
  unfolding sorts_descending_def using stable_sort_desc_props by blast






lemma length_sample_year: "length (sample_year y) = 20"
  by (simp add: sample_year_def days)

lemma sample_year_nonempty: "sample_year y \<noteq> []"
  using length_sample_year [of y] by auto

lemma ytd_short:
  "length (up_to (now_month e) (now_day e) (year_rows (data self) year1)) < 20
   \<or> length (up_to (now_month e) (now_day e) (year_rows (data self) year2)) < 20
   \<Longrightarrow> calculate_ytd_correlation e cc self year1 year2 = NaN"
  by (auto simp: calculate_ytd_correlation_def ytd_try_def Let_def)

lemma sample_closes:
  "map adjusted_close (sample_year y) \<noteq> [] \<and> hd (map adjusted_close (sample_year y)) = Fin 100
   \<and> last (map adjusted_close (sample_year y)) = Fin 200"
  by (simp add: sample_year_def days sample_bar_def)

lemma sample_period_return: "period_return (map adjusted_close (sample_year y)) = Inr (Fin 100)"
  using sample_closes [of y] by (simp add: period_return_Inr fsub_def)

lemma sample_year_step:
  "year_step (env_at 1 20) corrcoef_exact sample_matcher 2012 (Fin (7 / 10)) y =
     Inr (if y = 2010 \<or> y = 2011
          then [\<lparr>year = y, correlation = Fin 1, year_return = Fin 100,
                 ytd_return_at_similar_point = Fin 100\<rparr>]
          else [])" if "y \<in> {2010, 2011, 2012}"
proof (cases "y = 2012")
  case True
  then show ?thesis by (simp add: year_step_def)
next
  case False
  with that have y: "y = 2010 \<or> y = 2011" by auto
  then have c: "calculate_ytd_correlation (env_at 1 20) corrcoef_exact sample_matcher 2012 y = Fin 1"
    by (intro sample_corr) auto
  have g: "get_ytd_return sample_matcher y 1 20 = Fin 100"
    using y by (auto simp: get_ytd_return_def Let_def sample_matcher_def year_rows_sample
        up_to_sample_20 length_sample_year sample_period_return)
  have n: "now_month (env_at 1 20) = 1" "now_day (env_at 1 20) = 20" by (simp_all add: env_at_def)
  have d: "data sample_matcher = sample_frame" by (simp add: sample_matcher_def)
  show ?thesis using y
    by (auto simp: year_step_def Let_def c g n d year_rows_sample
        length_sample_year sample_period_return sample_year_nonempty)
qed

lemma sample_scan_years:
  "find_similar_years (env_at 1 20) corrcoef_exact srt sample_matcher 2012 (Fin (7 / 10)) =
     Inr (head 5 (srt
       [\<lparr>year = 2010, correlation = Fin 1, year_return = Fin 100,
         ytd_return_at_similar_point = Fin 100\<rparr>,
        \<lparr>year = 2011, correlation = Fin 1, year_return = Fin 100,
         ytd_return_at_similar_point = Fin 100\<rparr>]))"
proof -
  have d: "data sample_matcher = sample_frame" by (simp add: sample_matcher_def)
  have t: "TOP_N_SIMILAR (env_at 1 20) = 5" by (simp add: env_at_def)
  show ?thesis
    by (simp add: find_similar_years_def d t years_of_sample sample_year_step)
qed

lemma sample_scan_years_stable:
  "find_similar_years (env_at 1 20) corrcoef_exact (stable_sort_desc correlation) sample_matcher 2012 (Fin (7 / 10)) =
     Inr [\<lparr>year = 2010, correlation = Fin 1, year_return = Fin 100,
         ytd_return_at_similar_point = Fin 100\<rparr>,
        \<lparr>year = 2011, correlation = Fin 1, year_return = Fin 100,
         ytd_return_at_similar_point = Fin 100\<rparr>]"
  by (simp add: sample_scan_years stable_sort_desc_def head_def)



lemma quarter_step_total:
  "\<exists>rs. quarter_step cc self ref refq minc y q = Inr rs"
  by (simp add: quarter_step_def Let_def)

lemma quarter_step_row:
  assumes "quarter_step cc self ref refq minc y q = Inr rs" and "r \<in> set rs"
  shows "year r = y \<and> quarter r = q \<and> \<not> (y = ref \<and> q = refq)
    \<and> correlation r = calculate_quarterly_correlation cc self ref refq y q
    \<and> \<not> isnan (correlation r) \<and> fge (correlation r) minc"
  using assms by (auto simp: quarter_step_def Let_def split: if_splits)

lemma quarters_kept:
  obtains kept where
    "collect (\<lambda>y. collect (quarter_step cc self ref refq minc y) [1, 2, 3, 4])
       (years_of (data self)) = Inr kept"
    "\<forall>r \<in> set kept. year r \<in> set (years_of (data self)) \<and> quarter r \<in> {1, 2, 3, 4}
        \<and> \<not> (year r = ref \<and> quarter r = refq)
        \<and> correlation r = calculate_quarterly_correlation cc self ref refq (year r) (quarter r)
        \<and> \<not> isnan (correlation r) \<and> fge (correlation r) minc"
proof -
  let ?g = "\<lambda>y. quarter_step cc self ref refq minc y"
  let ?f = "\<lambda>y. collect (?g y) [1, 2, 3, 4]" and ?ys = "years_of (data self)"
  have inner: "?f y = Inr (concat (map (\<lambda>q. projr (?g y q)) [1, 2, 3, 4]))" for y
    by (rule collect_Inr) (rule quarter_step_total)
  have c: "collect ?f ?ys = Inr (concat (map (\<lambda>x. projr (?f x)) ?ys))"
    by (rule collect_Inr) (use inner in blast)
  show ?thesis
  proof (rule that [OF c], rule ballI)
    fix r assume "r \<in> set (concat (map (\<lambda>x. projr (?f x)) ?ys))"
    with collect_set [OF c] obtain y rs where y: "y \<in> set ?ys" "?f y = Inr rs" "r \<in> set rs"
      by blast
    from collect_set [OF y(2,3)] obtain q rq where
      q: "q \<in> set [1, 2, 3, 4]" "?g y q = Inr rq" "r \<in> set rq" by blast
    from quarter_step_row [OF q(2,3)] y(1) q(1)
    show "year r \<in> set ?ys \<and> quarter r \<in> {1, 2, 3, 4}
        \<and> \<not> (year r = ref \<and> quarter r = refq)
        \<and> correlation r = calculate_quarterly_correlation cc self ref refq (year r) (quarter r)
        \<and> \<not> isnan (correlation r) \<and> fge (correlation r) minc" by auto
  qed
qed

lemma find_similar_quarters_rows:
  assumes "sorts_descending correlation srt"
  obtains rows where
    "find_similar_quarters e cc srt self ref refq minc = Inr rows"
    "\<forall>r \<in> set rows. year r \<in> set (years_of (data self)) \<and> quarter r \<in> {1, 2, 3, 4}
        \<and> \<not> (year r = ref \<and> quarter r = refq)
        \<and> correlation r = calculate_quarterly_correlation cc self ref refq (year r) (quarter r)
        \<and> \<not> isnan (correlation r) \<and> fge (correlation r) minc"
    "sorted_wrt (\<lambda>a b. fge (correlation a) (correlation b)) rows"
proof -
  obtain kept where
    k: "collect (\<lambda>y. collect (quarter_step cc self ref refq minc y) [1, 2, 3, 4])
          (years_of (data self)) = Inr kept"
    and p: "\<forall>r \<in> set kept. year r \<in> set (years_of (data self)) \<and> quarter r \<in> {1, 2, 3, 4}
        \<and> \<not> (year r = ref \<and> quarter r = refq)
        \<and> correlation r = calculate_quarterly_correlation cc self ref refq (year r) (quarter r)
        \<and> \<not> isnan (correlation r) \<and> fge (correlation r) minc"
    by (rule quarters_kept)
  let ?rows = "if kept \<noteq> [] then head (TOP_N_SIMILAR e) (srt kept) else []"
  have nn: "\<forall>r \<in> set kept. \<not> isnan (correlation r)" using p by blast
  have s: "set (srt kept) = set kept" by (rule sorts_descending_set [OF assms nn])
  have o: "sorted_wrt (\<lambda>a b. fge (correlation a) (correlation b)) (srt kept)"
    by (rule sorts_descending_sorted [OF assms nn])
  have 1: "find_similar_quarters e cc srt self ref refq minc = Inr ?rows"
    unfolding find_similar_quarters_def k by simp
  have 2: "set ?rows \<subseteq> set kept" using set_head [of "TOP_N_SIMILAR e" "srt kept"] s by auto
  have 3: "sorted_wrt (\<lambda>a b. fge (correlation a) (correlation b)) ?rows"
    using o by (simp add: sorted_wrt_head)
  show ?thesis
    by (rule that [OF 1 _ 3]) (use 2 p in blast)
qed

lemma quarterly_short:
  "length (get_quarter_data self year1 q1) < 15 \<or> length (get_quarter_data self year2 q2) < 15
   \<Longrightarrow> calculate_quarterly_correlation cc self year1 q1 year2 q2 = NaN"
  by (auto simp: calculate_quarterly_correlation_def quarterly_try_def Let_def)

lemma sample_quarter_data:
  "get_quarter_data sample_matcher y q =
     (if (y = 2010 \<or> y = 2011 \<or> y = 2012) \<and> q = 1 then sample_year y else [])"
  by (auto simp: get_quarter_data_def sample_matcher_def year_rows_sample quarter_months_def
      sample_year_def sample_bar_def days)

lemma sample_quarter_corr:
  "calculate_quarterly_correlation corrcoef_exact sample_matcher 2012 1 y q =
     (if (y = 2010 \<or> y = 2011 \<or> y = 2012) \<and> q = 1 then Fin 1 else NaN)"
proof (cases "(y = 2010 \<or> y = 2011 \<or> y = 2012) \<and> q = 1")
  case False
  then have "length (get_quarter_data sample_matcher y q) < 15"
    by (auto simp: sample_quarter_data)
  with False show ?thesis by (simp add: quarterly_short)
next
  case True
  let ?p = "replicate 19 (Fin (- (1/2))) @ [Fin 0]"
  have m: "masked_corrcoef corrcoef_exact 15 ?p ?p = corrcoef_exact ?p ?p"
    by (simp add: masked_corrcoef_def Let_def numeral_eq_Suc)
  have c: "corrcoef_exact ?p ?p = Inr (Fin 1)"
    by (rule corrcoef_exact_self) (simp_all add: sample_path_cov list_all_iff)
  show ?thesis using True
    by (auto simp: calculate_quarterly_correlation_def quarterly_try_def Let_def
        sample_quarter_data length_sample_year path_sample m c)
qed

lemma str_2010: "str_int 2010 = ''2010''" "str_int 2011 = ''2011''" "str_int 1 = ''1''"
  by (simp_all add: str_int_def str_nat.simps digit_def)

lemma sample_quarter_return: "get_quarter_return sample_matcher y 1 = Fin 100"
  if "y = 2010 \<or> y = 2011"
  using that
  by (auto simp: get_quarter_return_def Let_def sample_quarter_data length_sample_year
      sample_period_return)

lemma sample_quarter_step:
  "quarter_step corrcoef_exact sample_matcher 2012 1 (Fin (7 / 10)) y q =
     Inr (if (y = 2010 \<or> y = 2011) \<and> q = 1
          then [\<lparr>year = y, correlation = Fin 1, quarter = 1,
                 year_quarter = str_int y @ ''-Q1'', quarter_return = Fin 100\<rparr>]
          else [])" if "y \<in> {2010, 2011, 2012}"
  using that
  by (auto simp: quarter_step_def Let_def sample_quarter_corr sample_quarter_return str_2010)

lemma sample_scan_quarters:
  "find_similar_quarters (env_at m d) corrcoef_exact srt sample_matcher 2012 1 (Fin (7 / 10)) =
     Inr (head 5 (srt
       [\<lparr>year = 2010, correlation = Fin 1, quarter = 1, year_quarter = ''2010-Q1'',
         quarter_return = Fin 100\<rparr>,
        \<lparr>year = 2011, correlation = Fin 1, quarter = 1, year_quarter = ''2011-Q1'',
         quarter_return = Fin 100\<rparr>]))"
proof -
  have d: "data sample_matcher = sample_frame" by (simp add: sample_matcher_def)
  have t: "TOP_N_SIMILAR (env_at m d) = 5" by (simp add: env_at_def)
  show ?thesis
    by (simp add: find_similar_quarters_def d t years_of_sample sample_quarter_step str_2010)
qed

lemma sample_scan_quarters_stable:
  "find_similar_quarters (env_at m d) corrcoef_exact (stable_sort_desc correlation)
     sample_matcher 2012 1 (Fin (7 / 10)) =
     Inr [\<lparr>year = 2010, correlation = Fin 1, quarter = 1, year_quarter = ''2010-Q1'',
         quarter_return = Fin 100\<rparr>,
        \<lparr>year = 2011, correlation = Fin 1, quarter = 1, year_quarter = ''2011-Q1'',
         quarter_return = Fin 100\<rparr>]"
  by (simp add: sample_scan_quarters stable_sort_desc_def head_def)

section \<open>Claims\<close>

text \<open>
  C1. For both ranking scans, whatever the series, the threshold and the value of
  \<open>Config.TOP_N_SIMILAR\<close>: the scan returns, every returned row has a correlation that is
  not NaN and is at least \<open>min_correlation\<close>, and the correlations do not increase from
  the first row to the last. The sort is any routine that returns its rows in
  non-increasing order of the key.
\<close>

theorem ranking_rows_above_threshold_and_sorted:
  assumes "sorts_descending correlation srt_y" and "sorts_descending correlation srt_q"
  shows "(\<exists>rows. find_similar_years e cc srt_y self reference_year min_correlation = Inr rows
            \<and> (\<forall>r \<in> set rows. \<not> isnan (correlation r) \<and> fge (correlation r) min_correlation)
            \<and> sorted_wrt (\<lambda>a b. fge (correlation a) (correlation b)) rows)
       \<and> (\<exists>rows. find_similar_quarters e cc srt_q self reference_year reference_quarter
                   min_correlation = Inr rows
            \<and> (\<forall>r \<in> set rows. \<not> isnan (correlation r) \<and> fge (correlation r) min_correlation)
            \<and> sorted_wrt (\<lambda>a b. fge (correlation a) (correlation b)) rows)"
proof
  show "\<exists>rows. find_similar_years e cc srt_y self reference_year min_correlation = Inr rows
            \<and> (\<forall>r \<in> set rows. \<not> isnan (correlation r) \<and> fge (correlation r) min_correlation)
            \<and> sorted_wrt (\<lambda>a b. fge (correlation a) (correlation b)) rows"
    by (rule find_similar_years_rows [OF assms(1), of e cc self reference_year min_correlation])
      blast
  show "\<exists>rows. find_similar_quarters e cc srt_q self reference_year reference_quarter
                   min_correlation = Inr rows
            \<and> (\<forall>r \<in> set rows. \<not> isnan (correlation r) \<and> fge (correlation r) min_correlation)
            \<and> sorted_wrt (\<lambda>a b. fge (correlation a) (correlation b)) rows"
    by (rule find_similar_quarters_rows [OF assms(2), of e cc self reference_year
          reference_quarter min_correlation]) blast
qed

theorem ranking_rows_above_threshold_and_sorted_witness:
  "sorts_descending correlation (stable_sort_desc correlation :: year_row list \<Rightarrow> year_row list)
   \<and> sorts_descending correlation
        (stable_sort_desc correlation :: quarter_row list \<Rightarrow> quarter_row list)
   \<and> (\<exists>rows. find_similar_years (env_at 1 20) corrcoef_exact (stable_sort_desc correlation)
                 sample_matcher 2012 (Fin (7 / 10)) = Inr rows
         \<and> length rows = 2
         \<and> (\<forall>r \<in> set rows. \<not> isnan (correlation r) \<and> fge (correlation r) (Fin (7 / 10)))
         \<and> sorted_wrt (\<lambda>a b. fge (correlation a) (correlation b)) rows)
   \<and> (\<exists>rows. find_similar_quarters (env_at 1 20) corrcoef_exact (stable_sort_desc correlation)
                 sample_matcher 2012 1 (Fin (7 / 10)) = Inr rows
         \<and> length rows = 2
         \<and> (\<forall>r \<in> set rows. \<not> isnan (correlation r) \<and> fge (correlation r) (Fin (7 / 10)))
         \<and> sorted_wrt (\<lambda>a b. fge (correlation a) (correlation b)) rows)"
  using ranking_rows_above_threshold_and_sorted
    [OF stable_sort_desc_sorts stable_sort_desc_sorts,
      of "env_at 1 20" corrcoef_exact sample_matcher 2012 "Fin (7 / 10)" 1]
  by (simp add: sample_scan_years_stable sample_scan_quarters_stable stable_sort_desc_sorts)

text \<open>
  C2. The year-level correlation is NaN whenever the shorter of the two year-to-date
  extracts has fewer than 20 observations, the quarter-level one whenever the shorter of
  the two quarter extracts has fewer than 15; so every row a scan returns names a period
  with at least 20 (year scan) or 15 (quarter scan) observations, whatever the threshold.
\<close>

theorem short_periods_undefined_and_never_ranked:
  assumes "sorts_descending correlation srt_y" and "sorts_descending correlation srt_q"
  shows "(min (length (up_to (now_month e) (now_day e) (year_rows (data self) year1)))
              (length (up_to (now_month e) (now_day e) (year_rows (data self) year2))) < 20
            \<longrightarrow> isnan (calculate_ytd_correlation e cc self year1 year2))
       \<and> (min (length (get_quarter_data self year1 q1)) (length (get_quarter_data self year2 q2))
              < 15
            \<longrightarrow> isnan (calculate_quarterly_correlation cc self year1 q1 year2 q2))
       \<and> (\<exists>rows. find_similar_years e cc srt_y self reference_year min_correlation = Inr rows
            \<and> (\<forall>r \<in> set rows.
                  20 \<le> length (up_to (now_month e) (now_day e) (year_rows (data self) (year r)))))
       \<and> (\<exists>rows. find_similar_quarters e cc srt_q self reference_year reference_quarter
                   min_correlation = Inr rows
            \<and> (\<forall>r \<in> set rows. 15 \<le> length (get_quarter_data self (year r) (quarter r))))"
proof (intro conjI impI)
  assume "min (length (up_to (now_month e) (now_day e) (year_rows (data self) year1)))
              (length (up_to (now_month e) (now_day e) (year_rows (data self) year2))) < 20"
  then show "isnan (calculate_ytd_correlation e cc self year1 year2)"
    by (simp add: ytd_short min_less_iff_disj)
next
  assume "min (length (get_quarter_data self year1 q1)) (length (get_quarter_data self year2 q2))
              < 15"
  then show "isnan (calculate_quarterly_correlation cc self year1 q1 year2 q2)"
    by (simp add: quarterly_short min_less_iff_disj)
next
  obtain rows where r: "find_similar_years e cc srt_y self reference_year min_correlation = Inr rows"
    and p: "\<forall>r \<in> set rows. year r \<in> set (years_of (data self)) \<and> year r \<noteq> reference_year
        \<and> correlation r = calculate_ytd_correlation e cc self reference_year (year r)
        \<and> \<not> isnan (correlation r) \<and> fge (correlation r) min_correlation"
    by (rule find_similar_years_rows [OF assms(1)])
  have "20 \<le> length (up_to (now_month e) (now_day e) (year_rows (data self) (year x)))"
    if "x \<in> set rows" for x
  proof (rule ccontr)
    assume "\<not> 20 \<le> length (up_to (now_month e) (now_day e) (year_rows (data self) (year x)))"
    then have "calculate_ytd_correlation e cc self reference_year (year x) = NaN"
      by (intro ytd_short) simp
    with p that show False by auto
  qed
  with r show "\<exists>rows. find_similar_years e cc srt_y self reference_year min_correlation = Inr rows
            \<and> (\<forall>r \<in> set rows.
                  20 \<le> length (up_to (now_month e) (now_day e) (year_rows (data self) (year r))))"
    by blast
next
  obtain rows where
    r: "find_similar_quarters e cc srt_q self reference_year reference_quarter min_correlation
          = Inr rows"
    and p: "\<forall>r \<in> set rows. year r \<in> set (years_of (data self)) \<and> quarter r \<in> {1, 2, 3, 4}
        \<and> \<not> (year r = reference_year \<and> quarter r = reference_quarter)
        \<and> correlation r = calculate_quarterly_correlation cc self reference_year
             reference_quarter (year r) (quarter r)
        \<and> \<not> isnan (correlation r) \<and> fge (correlation r) min_correlation"
    by (rule find_similar_quarters_rows [OF assms(2)])
  have "15 \<le> length (get_quarter_data self (year x) (quarter x))" if "x \<in> set rows" for x
  proof (rule ccontr)
    assume "\<not> 15 \<le> length (get_quarter_data self (year x) (quarter x))"
    then have "calculate_quarterly_correlation cc self reference_year reference_quarter
                 (year x) (quarter x) = NaN"
      by (intro quarterly_short) simp
    with p that show False by auto
  qed
  with r show "\<exists>rows. find_similar_quarters e cc srt_q self reference_year reference_quarter
                   min_correlation = Inr rows
            \<and> (\<forall>r \<in> set rows. 15 \<le> length (get_quarter_data self (year r) (quarter r)))"
    by blast
qed

theorem short_periods_undefined_and_never_ranked_witness:
  "sorts_descending correlation (stable_sort_desc correlation :: year_row list \<Rightarrow> year_row list)
   \<and> sorts_descending correlation
        (stable_sort_desc correlation :: quarter_row list \<Rightarrow> quarter_row list)
   \<and> min (length (up_to 1 19 (year_rows sample_frame 2012)))
          (length (up_to 1 19 (year_rows sample_frame 2010))) < 20
   \<and> isnan (calculate_ytd_correlation (env_at 1 19) corrcoef_exact sample_matcher 2012 2010)
   \<and> min (length (get_quarter_data sample_matcher 2012 1))
          (length (get_quarter_data sample_matcher 2010 2)) < 15
   \<and> isnan (calculate_quarterly_correlation corrcoef_exact sample_matcher 2012 1 2010 2)
   \<and> (\<exists>rows. find_similar_years (env_at 1 20) corrcoef_exact (stable_sort_desc correlation)
                 sample_matcher 2012 (Fin (7 / 10)) = Inr rows
         \<and> length rows = 2
         \<and> (\<forall>r \<in> set rows. 20 \<le> length (up_to 1 20 (year_rows sample_frame (year r)))))
   \<and> (\<exists>rows. find_similar_quarters (env_at 1 20) corrcoef_exact (stable_sort_desc correlation)
                 sample_matcher 2012 1 (Fin (7 / 10)) = Inr rows
         \<and> length rows = 2
         \<and> (\<forall>r \<in> set rows. 15 \<le> length (get_quarter_data sample_matcher (year r) (quarter r))))"
proof -
  have d: "data sample_matcher = sample_frame" by (simp add: sample_matcher_def)
  have n: "now_month (env_at 1 19) = 1" "now_day (env_at 1 19) = 19"
    "now_month (env_at 1 20) = 1" "now_day (env_at 1 20) = 20" by (simp_all add: env_at_def)
  have a: "min (length (up_to 1 19 (year_rows sample_frame 2012)))
          (length (up_to 1 19 (year_rows sample_frame 2010))) < 20"
    by (simp add: year_rows_sample up_to_sample_19)
  have b: "min (length (get_quarter_data sample_matcher 2012 1))
          (length (get_quarter_data sample_matcher 2010 2)) < 15"
    by (simp add: sample_quarter_data)
  note t1 = short_periods_undefined_and_never_ranked
    [OF stable_sort_desc_sorts stable_sort_desc_sorts,
      of "env_at 1 19" sample_matcher 2012 2010 corrcoef_exact 1 2 2012 "Fin (7 / 10)" 1]
  note t2 = short_periods_undefined_and_never_ranked
    [OF stable_sort_desc_sorts stable_sort_desc_sorts,
      of "env_at 1 20" sample_matcher 2012 2010 corrcoef_exact 1 2 2012 "Fin (7 / 10)" 1]
  from t1 a b have c: "isnan (calculate_ytd_correlation (env_at 1 19) corrcoef_exact sample_matcher 2012 2010)"
    "isnan (calculate_quarterly_correlation corrcoef_exact sample_matcher 2012 1 2010 2)"
    by (simp_all add: d n)
  from t2 show ?thesis
    using a b c
    by (simp add: d n sample_scan_years_stable sample_scan_quarters_stable stable_sort_desc_sorts)
qed

text \<open>
  C7. The reference period is never among its own results: the year scan returns no row
  for the reference year, the quarter scan no row for the reference year and quarter.
\<close>

theorem reference_period_never_returned:
  assumes "sorts_descending correlation srt_y" and "sorts_descending correlation srt_q"
  shows "(\<exists>rows. find_similar_years e cc srt_y self reference_year min_correlation = Inr rows
            \<and> (\<forall>r \<in> set rows. year r \<noteq> reference_year))
       \<and> (\<exists>rows. find_similar_quarters e cc srt_q self reference_year reference_quarter
                   min_correlation = Inr rows
            \<and> (\<forall>r \<in> set rows. (year r, quarter r) \<noteq> (reference_year, reference_quarter)))"
proof
  show "\<exists>rows. find_similar_years e cc srt_y self reference_year min_correlation = Inr rows
            \<and> (\<forall>r \<in> set rows. year r \<noteq> reference_year)"
    by (rule find_similar_years_rows [OF assms(1), of e cc self reference_year min_correlation])
      blast
  show "\<exists>rows. find_similar_quarters e cc srt_q self reference_year reference_quarter
                   min_correlation = Inr rows
            \<and> (\<forall>r \<in> set rows. (year r, quarter r) \<noteq> (reference_year, reference_quarter))"
    by (rule find_similar_quarters_rows [OF assms(2), of e cc self reference_year
          reference_quarter min_correlation]) auto
qed

theorem reference_period_never_returned_witness:
  "sorts_descending correlation (stable_sort_desc correlation :: year_row list \<Rightarrow> year_row list)
   \<and> sorts_descending correlation
        (stable_sort_desc correlation :: quarter_row list \<Rightarrow> quarter_row list)
   \<and> (\<exists>rows. find_similar_years (env_at 1 20) corrcoef_exact (stable_sort_desc correlation)
                 sample_matcher 2012 (Fin (7 / 10)) = Inr rows
         \<and> map year rows = [2010, 2011] \<and> (\<forall>r \<in> set rows. year r \<noteq> 2012))
   \<and> (\<exists>rows. find_similar_quarters (env_at 1 20) corrcoef_exact (stable_sort_desc correlation)
                 sample_matcher 2012 1 (Fin (7 / 10)) = Inr rows
         \<and> map year rows = [2010, 2011] \<and> (\<forall>r \<in> set rows. (year r, quarter r) \<noteq> (2012, 1)))"
  using reference_period_never_returned
    [OF stable_sort_desc_sorts stable_sort_desc_sorts,
      of "env_at 1 20" corrcoef_exact sample_matcher 2012 "Fin (7 / 10)" 1]
  by (simp add: sample_scan_years_stable sample_scan_quarters_stable stable_sort_desc_sorts)







lemma find_similar_years_total:
  "\<exists>rows. find_similar_years e cc srt self ref minc = Inr rows"
proof -
  obtain kept where "collect (year_step e cc self ref minc) (years_of (data self)) = Inr kept"
    by (rule years_kept)
  then show ?thesis by (simp add: find_similar_years_def)
qed

lemma find_similar_quarters_total:
  "\<exists>rows. find_similar_quarters e cc srt self ref refq minc = Inr rows"
proof -
  obtain kept where
    k: "collect (\<lambda>y. collect (quarter_step cc self ref refq minc y) [1, 2, 3, 4])
       (years_of (data self)) = Inr kept"
    by (rule quarters_kept)
  show ?thesis unfolding find_similar_quarters_def k by simp
qed

lemma collect_all_empty: "(\<And>x. x \<in> set xs \<Longrightarrow> f x = Inr []) \<Longrightarrow> collect f xs = Inr []"
  by (induction xs) auto

lemma find_similar_years_short_reference:
  assumes "length (up_to (now_month e) (now_day e) (year_rows (data self) ref)) < 20"
  shows "find_similar_years e cc srt self ref minc = Inr []"
proof -
  have "year_step e cc self ref minc y = Inr []" for y
    using assms by (simp add: year_step_def ytd_short)
  then have "collect (year_step e cc self ref minc) (years_of (data self)) = Inr []"
    by (intro collect_all_empty)
  then show ?thesis by (simp add: find_similar_years_def)
qed

lemma find_similar_quarters_short_reference:
  assumes "length (get_quarter_data self ref refq) < 15"
  shows "find_similar_quarters e cc srt self ref refq minc = Inr []"
proof -
  have "quarter_step cc self ref refq minc y q = Inr []" for y q
    using assms by (simp add: quarter_step_def quarterly_short)
  then have inner: "collect (quarter_step cc self ref refq minc y) [1, 2, 3, 4] = Inr []" for y
    by simp
  have "collect (\<lambda>y. collect (quarter_step cc self ref refq minc y) [1, 2, 3, 4])
       (years_of (data self)) = Inr []"
    by (rule collect_all_empty) (rule inner)
  then show ?thesis unfolding find_similar_quarters_def by simp
qed

text \<open>
  C3 as stated fails: building the matcher from an empty series raises \<open>ValueError\<close>
  (line 197), so the analysis of an empty series is an exception, not an empty result.
\<close>

theorem empty_series_counterexample:
  "analyse_years (env_at 1 20) corrcoef_exact (stable_sort_desc correlation) [] 2012
     (Fin (7 / 10)) = Inl ValueError
   \<and> analyse_years (env_at 1 20) corrcoef_exact (stable_sort_desc correlation) [] 2012
     (Fin (7 / 10)) \<noteq> Inr []"
  by (simp add: analyse_years_def PatternMatcher_init_def)

text \<open>
  C3, amended. An empty series makes the analysis raise \<open>ValueError\<close>. For every
  non-empty series both analyses return a list, and the list is empty when the
  reference period has fewer observations than its minimum length (20 up to the cutoff
  for the year, 15 for the quarter).
\<close>

theorem empty_series_raises_nonempty_series_returns:
  "analyse_years e cc srt_y [] reference_year min_correlation = Inl ValueError
   \<and> analyse_quarters e cc srt_q [] reference_year reference_quarter min_correlation
       = Inl ValueError
   \<and> (df \<noteq> [] \<longrightarrow>
        (\<exists>rows. analyse_years e cc srt_y df reference_year min_correlation = Inr rows)
        \<and> (\<exists>rows. analyse_quarters e cc srt_q df reference_year reference_quarter
                    min_correlation = Inr rows))
   \<and> (df \<noteq> [] \<and> length (up_to (now_month e) (now_day e) (year_rows df reference_year)) < 20
        \<longrightarrow> analyse_years e cc srt_y df reference_year min_correlation = Inr [])
   \<and> (df \<noteq> []
        \<and> length (filter (\<lambda>r. idx_month r \<in> set (quarter_months reference_quarter))
                     (year_rows df reference_year)) < 15
        \<longrightarrow> analyse_quarters e cc srt_q df reference_year reference_quarter min_correlation
              = Inr [])"
  by (auto simp: analyse_years_def analyse_quarters_def PatternMatcher_init_def
      find_similar_years_total find_similar_quarters_total
      find_similar_years_short_reference find_similar_quarters_short_reference
      get_quarter_data_def)

theorem empty_series_raises_nonempty_series_returns_witness:
  "sample_frame \<noteq> []
   \<and> length (up_to 1 19 (year_rows sample_frame 2012)) < 20
   \<and> length (filter (\<lambda>r. idx_month r \<in> set (quarter_months 2)) (year_rows sample_frame 2012))
       < 15
   \<and> analyse_years (env_at 1 19) corrcoef_exact (stable_sort_desc correlation) sample_frame 2012
       (Fin (7 / 10)) = Inr []
   \<and> analyse_quarters (env_at 1 19) corrcoef_exact (stable_sort_desc correlation) sample_frame
       2012 2 (Fin (7 / 10)) = Inr []"
proof -
  have a: "sample_frame \<noteq> []" by (simp add: sample_frame_def sample_year_nonempty)
  have b: "length (up_to 1 19 (year_rows sample_frame 2012)) < 20"
    by (simp add: year_rows_sample up_to_sample_19)
  have c: "length (filter (\<lambda>r. idx_month r \<in> set (quarter_months 2))
             (year_rows sample_frame 2012)) < 15"
    using sample_quarter_data [of 2012 2]
    by (simp add: get_quarter_data_def sample_matcher_def)
  have n: "now_month (env_at 1 19) = 1" "now_day (env_at 1 19) = 19" by (simp_all add: env_at_def)
  from empty_series_raises_nonempty_series_returns
    [of "env_at 1 19" corrcoef_exact "stable_sort_desc correlation" 2012 "Fin (7 / 10)"
        "stable_sort_desc correlation" 2 sample_frame]
  show ?thesis using a b c by (simp add: n)
qed






















































end
